theory Spec2Isabelle
  imports Main "HOL-Library.Sublist"
begin

section \<open>Data model (types.ts)\<close>

text \<open>
  A chat message: its role is one of three tags, its content a string.
\<close>

datatype role = System | User | Assistant

record message =
  role :: role
  content :: string

text \<open>
  A provider configuration. The fields are \<open>baseURL\<close> and \<open>defaultModel\<close> in the
  source; they carry a prefix here because \<open>LlmOptions\<close> has a \<open>baseURL\<close> of its own.
\<close>

record provider_config =
  cfg_baseURL :: string
  cfg_defaultModel :: string

text \<open>
  A failure is a thrown exception or a rejected promise. Every \<open>throw\<close> of the source
  raises a plain \<open>Error\<close> with a message, so the kinds of failure (invalid
  configuration, unknown provider, empty response) are told apart by their messages.
  Reading a property of \<open>undefined\<close> raises a \<open>TypeError\<close>, whose message is the
  engine's and is not modelled.
\<close>

datatype error = Error string | TypeError

text \<open>
  The \<open>llm\<close> option is declared as a function, but \<open>resolveLlm\<close> tests it at run time
  (\<open>if (options.llm)\<close>, \<open>typeof options.llm !== "function"\<close>), so the model keeps the
  kinds of JavaScript value that can arrive there. A number is an integer or \<open>NaN\<close>:
  the two tests tell no other numbers apart. A promise of a string is a result:
  \<open>Inl\<close> when rejected, \<open>Inr\<close> when fulfilled.
\<close>

type_synonym llm_function = "message list \<Rightarrow> error + string"

datatype jsval =
    JUndefined
  | JNull
  | JBoolean bool
  | JNumber int
  | JNaN
  | JBigInt int
  | JString string
  | JSymbol
  | JObject
  | JFunction llm_function

text \<open>JavaScript's \<open>ToBoolean\<close>, as applied by \<open>if (v)\<close>.\<close>

fun truthy :: "jsval \<Rightarrow> bool" where
  "truthy JUndefined = False"
| "truthy JNull = False"
| "truthy (JBoolean b) = b"
| "truthy (JNumber n) = (n \<noteq> 0)"
| "truthy JNaN = False"
| "truthy (JBigInt n) = (n \<noteq> 0)"
| "truthy (JString s) = (s \<noteq> [])"
| "truthy JSymbol = True"
| "truthy JObject = True"
| "truthy (JFunction f) = True"

text \<open>The \<open>typeof\<close> operator.\<close>

fun typeof :: "jsval \<Rightarrow> string" where
  "typeof JUndefined = ''undefined''"
| "typeof JNull = ''object''"
| "typeof (JBoolean b) = ''boolean''"
| "typeof (JNumber n) = ''number''"
| "typeof JNaN = ''number''"
| "typeof (JBigInt n) = ''bigint''"
| "typeof (JString s) = ''string''"
| "typeof JSymbol = ''symbol''"
| "typeof JObject = ''object''"
| "typeof (JFunction f) = ''function''"

text \<open>
  An optional string (\<open>apiKey?\<close>, \<open>provider?\<close>, \<open>model?\<close>, \<open>baseURL?\<close>) is
  \<open>None\<close> when it is \<open>undefined\<close>. A provider is kept as a string: the type
  \<open>Provider\<close> is erased at run time, and \<open>getProviderConfig\<close> takes any string.
  Such a value is truthy when it is present and not the empty string.
\<close>

fun truthy_str :: "string option \<Rightarrow> bool" where
  "truthy_str None = False"
| "truthy_str (Some s) = (s \<noteq> [])"

section \<open>Provider registry\<close>

text \<open>
  \<open>PROVIDER_CONFIGS\<close> is an object literal. It is an association list here, in
  declaration order, because \<open>Object.keys\<close> lists the keys in that order.
\<close>

definition PROVIDER_CONFIGS :: "(string \<times> provider_config) list" where
  "PROVIDER_CONFIGS =
    [(''openai'', \<lparr>cfg_baseURL = ''https://api.openai.com/v1'', cfg_defaultModel = ''gpt-4o-mini''\<rparr>),
     (''anthropic'', \<lparr>cfg_baseURL = ''https://api.anthropic.com'', cfg_defaultModel = ''claude-haiku-4-5-20251001''\<rparr>),
     (''gemini'', \<lparr>cfg_baseURL = ''https://generativelanguage.googleapis.com/v1beta/openai'', cfg_defaultModel = ''gemini-2.0-flash''\<rparr>),
     (''groq'', \<lparr>cfg_baseURL = ''https://api.groq.com/openai/v1'', cfg_defaultModel = ''llama-3.3-70b-versatile''\<rparr>),
     (''together'', \<lparr>cfg_baseURL = ''https://api.together.xyz/v1'', cfg_defaultModel = ''meta-llama/Meta-Llama-3.1-8B-Instruct-Turbo''\<rparr>),
     (''mistral'', \<lparr>cfg_baseURL = ''https://api.mistral.ai/v1'', cfg_defaultModel = ''mistral-small-latest''\<rparr>),
     (''openrouter'', \<lparr>cfg_baseURL = ''https://openrouter.ai/api/v1'', cfg_defaultModel = ''''\<rparr>),
     (''xai'', \<lparr>cfg_baseURL = ''https://api.x.ai/v1'', cfg_defaultModel = ''grok-3-mini-fast''\<rparr>),
     (''deepseek'', \<lparr>cfg_baseURL = ''https://api.deepseek.com'', cfg_defaultModel = ''deepseek-chat''\<rparr>)]"

text \<open>
  The prototype of an object literal is \<open>Object.prototype\<close>. These are the names of
  its properties; \<open>PROVIDER_CONFIGS\<close> inherits each of them.
\<close>

definition Object_prototype_keys :: "string list" where
  "Object_prototype_keys =
    [''constructor'', ''__defineGetter__'', ''__defineSetter__'', ''hasOwnProperty'',
     ''__lookupGetter__'', ''__lookupSetter__'', ''isPrototypeOf'', ''propertyIsEnumerable'',
     ''toString'', ''valueOf'', ''__proto__'', ''toLocaleString'']"

text \<open>
  What \<open>PROVIDER_CONFIGS[key]\<close> evaluates to: a configuration when the key is an
  own property, the inherited member of \<open>Object.prototype\<close> when the key names one, and
  \<open>undefined\<close> (\<open>None\<close>) otherwise.
\<close>

datatype registry_value = Config provider_config | Inherited string

definition registry_get :: "string \<Rightarrow> registry_value option" where
  "registry_get key =
    (case map_of PROVIDER_CONFIGS key of
       Some c \<Rightarrow> Some (Config c)
     | None \<Rightarrow> if key \<in> set Object_prototype_keys then Some (Inherited key) else None)"

text \<open>
  Reading \<open>.baseURL\<close> or \<open>.defaultModel\<close> of such a value: the field of a
  configuration, and \<open>undefined\<close> on a member of \<open>Object.prototype\<close>, which has no
  property of either name.
\<close>

fun get_baseURL :: "registry_value \<Rightarrow> string option" where
  "get_baseURL (Config c) = Some (cfg_baseURL c)"
| "get_baseURL (Inherited k) = None"

fun get_defaultModel :: "registry_value \<Rightarrow> string option" where
  "get_defaultModel (Config c) = Some (cfg_defaultModel c)"
| "get_defaultModel (Inherited k) = None"

text \<open>\<open>Array.prototype.join\<close> on a list of strings.\<close>

fun join :: "string \<Rightarrow> string list \<Rightarrow> string" where
  "join sep [] = []"
| "join sep [x] = x"
| "join sep (x # y # ys) = x @ sep @ join sep (y # ys)"

definition dquote :: string where
  "dquote = [CHR 0x22]"

text \<open>
  \<open>provider in PROVIDER_CONFIGS\<close> holds exactly when the lookup finds a property, own
  or inherited; \<open>getProviderConfig\<close> throws when it does not hold and returns
  \<open>PROVIDER_CONFIGS[provider]\<close> when it does.
\<close>

definition getProviderConfig :: "string \<Rightarrow> error + registry_value" where
  "getProviderConfig p =
    (case registry_get p of
       None \<Rightarrow>
         (let valid = join '', '' (map fst PROVIDER_CONFIGS) in
          Inl (Error (''Unknown provider '' @ dquote @ p @ dquote @ ''. Valid providers: '' @ valid)))
     | Some v \<Rightarrow> Inr v)"

section \<open>Anthropic adapter\<close>

text \<open>
  The request handed to \<open>fetch\<close>. The body is kept as the object that
  \<open>JSON.stringify\<close> receives: \<open>body_system\<close> is \<open>None\<close> when the object has no
  \<open>system\<close> property.
\<close>

record anthropic_body =
  body_model :: string
  body_max_tokens :: nat
  body_messages :: "message list"
  body_system :: "string option"

record http_request =
  req_url :: string
  req_method :: string
  req_headers :: "(string \<times> string) list"
  req_body :: anthropic_body

text \<open>
  The response: \<open>res.ok\<close>, \<open>res.status\<close>, the body read by \<open>res.text()\<close>, and the
  outcome of \<open>res.json()\<close>, which is a rejection or data whose \<open>content\<close> is a list
  of blocks or is missing.
\<close>

record content_block =
  block_type :: string
  block_text :: "string option"

record http_response =
  res_ok :: bool
  res_status :: nat
  res_text :: string
  res_json :: "error + content_block list option"

text \<open>
  The OpenAI client: the options given to its constructor, the parameters of
  \<open>chat.completions.create\<close>, and the completion it resolves to. A choice's message
  and a message's content may each be missing.
\<close>

record openai_options =
  client_apiKey :: string
  client_baseURL :: "string option"

record chat_params =
  chat_model :: string
  chat_messages :: "message list"
  chat_temperature :: int

type_synonym chat_choice = "string option option"

text \<open>
  The network is a parameter: \<open>fetch\<close> and the client's \<open>create\<close> answer a request
  with a rejection or a response.
\<close>

record world =
  fetch :: "http_request \<Rightarrow> error + http_response"
  create :: "openai_options \<Rightarrow> chat_params \<Rightarrow> error + chat_choice list"

text \<open>\<open>s.replace(/\/+$/, "")\<close>: the run of slashes at the end of the string is removed.\<close>

definition strip_trailing_slashes :: "string \<Rightarrow> string" where
  "strip_trailing_slashes s = rev (dropWhile (\<lambda>c. c = CHR ''/'') (rev s))"

text \<open>
  \<open>s.replace(/\/v1$/i, "")\<close>: a string that ends in \<open>/v1\<close> or \<open>/V1\<close> loses these three
  characters, once. The function works on the reversed string.
\<close>

fun drop_v1_rev :: "string \<Rightarrow> string" where
  "drop_v1_rev (c1 # cv # cs # rest) =
     (if c1 = CHR ''1'' \<and> (cv = CHR ''v'' \<or> cv = CHR ''V'') \<and> cs = CHR ''/''
      then rest else c1 # cv # cs # rest)"
| "drop_v1_rev s = s"

definition strip_v1_suffix :: "string \<Rightarrow> string" where
  "strip_v1_suffix s = rev (drop_v1_rev (rev s))"

text \<open>
  \<open>PROVIDER_CONFIGS.anthropic.baseURL\<close>, read from the registry. The entry is there
  (lemma \<open>anthropic_baseURL_value\<close> below), so the second branch is never taken.
\<close>

definition anthropic_baseURL :: string where
  "anthropic_baseURL =
    (case map_of PROVIDER_CONFIGS ''anthropic'' of
       Some c \<Rightarrow> cfg_baseURL c
     | None \<Rightarrow> [])"

definition anthropic_url :: "string option \<Rightarrow> string" where
  "anthropic_url baseURL =
    (let resolvedBaseURL =
       strip_v1_suffix (strip_trailing_slashes
         (case baseURL of
            Some b \<Rightarrow> b
          | None \<Rightarrow> anthropic_baseURL))
     in resolvedBaseURL @ ''/v1/messages'')"

definition anthropic_request ::
  "message list \<Rightarrow> string \<Rightarrow> string \<Rightarrow> string option \<Rightarrow> http_request" where
  "anthropic_request messages apiKey model baseURL =
    (let systemMsg = find (\<lambda>m. role m = System) messages;
         nonSystemMsgs = filter (\<lambda>m. role m \<noteq> System) messages;
         body = \<lparr>body_model = model,
                 body_max_tokens = 4096,
                 body_messages = map (\<lambda>m. \<lparr>role = role m, content = content m\<rparr>) nonSystemMsgs,
                 body_system = None\<rparr>;
         body' = (case systemMsg of
                    Some m \<Rightarrow> body\<lparr>body_system := Some (content m)\<rparr>
                  | None \<Rightarrow> body)
     in \<lparr>req_url = anthropic_url baseURL,
         req_method = ''POST'',
         req_headers = [(''content-type'', ''application/json''),
                        (''x-api-key'', apiKey),
                        (''anthropic-version'', ''2023-06-01'')],
         req_body = body'\<rparr>)"

text \<open>A status code in decimal, as the template string prints it.\<close>

fun show_nat :: "nat \<Rightarrow> string" where
  "show_nat n =
     (if n < 10 then [char_of (48 + n)]
      else show_nat (n div 10) @ [char_of (48 + n mod 10)])"

definition callAnthropic ::
  "world \<Rightarrow> message list \<Rightarrow> string \<Rightarrow> string \<Rightarrow> string option \<Rightarrow> error + string" where
  "callAnthropic w messages apiKey model baseURL =
    (case fetch w (anthropic_request messages apiKey model baseURL) of
       Inl e \<Rightarrow> Inl e
     | Inr res \<Rightarrow>
         if \<not> res_ok res then
           Inl (Error (''Anthropic API error ('' @ show_nat (res_status res) @ ''): '' @ res_text res))
         else
           (case res_json res of
              Inl e \<Rightarrow> Inl e
            | Inr data_content \<Rightarrow>
                (case data_content of
                   None \<Rightarrow> Inl (Error ''Anthropic returned an empty response'')
                 | Some blocks \<Rightarrow>
                     (case find (\<lambda>b. block_type b = ''text'') blocks of
                        None \<Rightarrow> Inl (Error ''Anthropic returned an empty response'')
                      | Some textBlock \<Rightarrow>
                          (case block_text textBlock of
                             None \<Rightarrow> Inl (Error ''Anthropic returned an empty response'')
                           | Some t \<Rightarrow>
                               if t = [] then Inl (Error ''Anthropic returned an empty response'')
                               else Inr t)))))"

section \<open>OpenAI-compatible adapter\<close>

text \<open>
  The client is built with the base URL only when it is truthy. The content is that of
  the first choice's message; a missing or empty content is an error.
\<close>

definition callOpenAICompatible ::
  "world \<Rightarrow> message list \<Rightarrow> string \<Rightarrow> string \<Rightarrow> string option \<Rightarrow> error + string" where
  "callOpenAICompatible w messages apiKey model baseURL =
    (let client = \<lparr>client_apiKey = apiKey,
                   client_baseURL = (if truthy_str baseURL then baseURL else None)\<rparr>
     in case create w client
               \<lparr>chat_model = model, chat_messages = messages, chat_temperature = 0\<rparr> of
          Inl e \<Rightarrow> Inl e
        | Inr choices \<Rightarrow>
            (case choices of
               [] \<Rightarrow> Inl (Error ''LLM returned an empty response'')
             | choice # rest \<Rightarrow>
                 (case choice of
                    None \<Rightarrow> Inl (Error ''LLM returned an empty response'')
                  | Some msg \<Rightarrow>
                      (case msg of
                         None \<Rightarrow> Inl (Error ''LLM returned an empty response'')
                       | Some c \<Rightarrow>
                           if c = [] then Inl (Error ''LLM returned an empty response'')
                           else Inr c))))"

section \<open>Router\<close>

text \<open>
  \<open>baseURL ?? (provider ? PROVIDER_CONFIGS[provider].baseURL : undefined)\<close>: the right
  operand is evaluated only when \<open>baseURL\<close> is \<open>undefined\<close>; reading \<open>.baseURL\<close> of
  an \<open>undefined\<close> lookup raises a \<open>TypeError\<close>, which rejects the promise.
\<close>

definition callLLM ::
  "world \<Rightarrow> message list \<Rightarrow> string \<Rightarrow> string \<Rightarrow> string option \<Rightarrow> string option \<Rightarrow> error + string" where
  "callLLM w messages apiKey model provider baseURL =
    (if provider = Some ''anthropic'' then callAnthropic w messages apiKey model baseURL
     else
       (case (case baseURL of
                Some b \<Rightarrow> Inr (Some b)
              | None \<Rightarrow>
                  (case provider of
                     None \<Rightarrow> Inr None
                   | Some p \<Rightarrow>
                       if p = [] then Inr None
                       else (case registry_get p of
                               None \<Rightarrow> Inl TypeError
                             | Some v \<Rightarrow> Inr (get_baseURL v)))) of
          Inl e \<Rightarrow> Inl e
        | Inr resolvedBaseURL \<Rightarrow> callOpenAICompatible w messages apiKey model resolvedBaseURL))"

section \<open>Option resolver\<close>

text \<open>The options record. Its \<open>llm\<close> field holds whatever value the caller passed.\<close>

record llm_options =
  apiKey :: "string option"
  provider :: "string option"
  model :: "string option"
  baseURL :: "string option"
  llm :: jsval

text \<open>
  The three branches of \<open>resolveLlm\<close>, in the order of the source. A \<open>throw\<close> is
  \<open>Inl\<close>; the returned function is \<open>Inr\<close>.
\<close>

definition resolveLlm :: "world \<Rightarrow> llm_options \<Rightarrow> string \<Rightarrow> error + llm_function" where
  "resolveLlm w options packageName =
    (if truthy (llm options) then
       (case llm options of
          JFunction f \<Rightarrow> Inr f
        | _ \<Rightarrow> Inl (Error ''`llm` option must be a function''))
     else
       (case apiKey options of
          None \<Rightarrow>
            Inl (Error (packageName @
              '' requires either `apiKey` + `model`, `apiKey` + `provider`, or `llm` option''))
        | Some key \<Rightarrow>
            if key = [] then
              Inl (Error (packageName @
                '' requires either `apiKey` + `model`, `apiKey` + `provider`, or `llm` option''))
            else
              (case (case provider options of
                       None \<Rightarrow> Inr None
                     | Some p \<Rightarrow>
                         if p = [] then Inr None
                         else map_sum id Some (getProviderConfig p)) of
                 Inl e \<Rightarrow> Inl e
               | Inr providerConfig \<Rightarrow>
                   (let resolved =
                      (case model options of
                         Some m \<Rightarrow> Some m
                       | None \<Rightarrow>
                           (case providerConfig of
                              None \<Rightarrow> None
                            | Some c \<Rightarrow> get_defaultModel c))
                    in case resolved of
                         None \<Rightarrow>
                           Inl (Error (packageName @
                             '' requires `model` when using `apiKey` (or use a `provider` with a default model)''))
                       | Some m \<Rightarrow>
                           if m = [] then
                             Inl (Error (packageName @
                               '' requires `model` when using `apiKey` (or use a `provider` with a default model)''))
                           else
                             Inr (\<lambda>messages.
                               callLLM w messages key m (provider options) (baseURL options))))))"

section \<open>Concrete inputs\<close>

text \<open>
  A network that answers every request with the address it was sent to: \<open>fetch\<close>
  replies with one text block holding the request URL, and the client's \<open>create\<close>
  with one choice whose content is the client's base URL (missing when the client was
  built without one).
\<close>

definition echo_world :: world where
  "echo_world =
    \<lparr>fetch = (\<lambda>req. Inr \<lparr>res_ok = True, res_status = 200, res_text = [],
                            res_json = Inr (Some [\<lparr>block_type = ''text'',
                                                   block_text = Some (req_url req)\<rparr>])\<rparr>),
     create = (\<lambda>opts params. Inr [Some (client_baseURL opts)])\<rparr>"

text \<open>
  A network that answers an Anthropic request with a summary of its body: the
  \<open>system\<close> field (or \<open>-\<close> when the body has none), the contents of the messages,
  and \<open>max_tokens\<close>.
\<close>

definition body_echo_world :: world where
  "body_echo_world =
    \<lparr>fetch = (\<lambda>req. Inr \<lparr>res_ok = True, res_status = 200, res_text = [],
                            res_json = Inr (Some [\<lparr>block_type = ''text'',
                              block_text = Some
                                ((case body_system (req_body req) of
                                    None \<Rightarrow> ''-''
                                  | Some s \<Rightarrow> s)
                                 @ ''|'' @ join '','' (map content (body_messages (req_body req)))
                                 @ ''|'' @ show_nat (body_max_tokens (req_body req)))\<rparr>])\<rparr>),
     create = (\<lambda>opts params. Inl (Error ''no client''))\<rparr>"

text \<open>A custom function, as a caller would pass it in the \<open>llm\<close> option.\<close>

definition customLlm :: llm_function where
  "customLlm = (\<lambda>messages. Inr ''response'')"

text \<open>
  The effective model in the words of the specification: \<open>options.model\<close> if given,
  else the registry's default model for \<open>options.provider\<close> if a provider is given.
  It is stated apart from \<open>resolveLlm\<close>, to be compared with it.
\<close>

definition spec_effective_model :: "llm_options \<Rightarrow> string option" where
  "spec_effective_model options =
    (case model options of
       Some m \<Rightarrow> Some m
     | None \<Rightarrow>
         (case provider options of
            None \<Rightarrow> None
          | Some p \<Rightarrow> map_option cfg_defaultModel (map_of PROVIDER_CONFIGS p)))"

section \<open>Facts about the registry\<close>

lemma provider_keys:
  "map fst PROVIDER_CONFIGS =
    [''openai'', ''anthropic'', ''gemini'', ''groq'', ''together'', ''mistral'',
     ''openrouter'', ''xai'', ''deepseek'']"
  by (simp add: PROVIDER_CONFIGS_def)

lemma provider_keys_distinct: "distinct (map fst PROVIDER_CONFIGS)"
  unfolding provider_keys by simp

lemma registered_key:
  "(p, c) \<in> set PROVIDER_CONFIGS \<Longrightarrow> p \<in> set (map fst PROVIDER_CONFIGS)"
  by (metis fst_conv image_eqI set_map)

lemma registered_nonempty: "(p, c) \<in> set PROVIDER_CONFIGS \<Longrightarrow> p \<noteq> []"
  using registered_key [of p c] unfolding provider_keys by auto

lemma map_of_registered:
  "(p, c) \<in> set PROVIDER_CONFIGS \<Longrightarrow> map_of PROVIDER_CONFIGS p = Some c"
  by (rule map_of_is_SomeI [OF provider_keys_distinct])

lemma registry_get_registered:
  "(p, c) \<in> set PROVIDER_CONFIGS \<Longrightarrow> registry_get p = Some (Config c)"
  by (simp add: registry_get_def map_of_registered)

lemma anthropic_baseURL_value: "anthropic_baseURL = ''https://api.anthropic.com''"
  by (simp add: anthropic_baseURL_def PROVIDER_CONFIGS_def)

text \<open>
  On a registered identifier \<open>getProviderConfig\<close> returns its configuration, and on a
  string that is neither registered nor the name of a property of \<open>Object.prototype\<close>
  it throws, naming the string and listing the nine identifiers in declaration order.
\<close>

lemma getProviderConfig_registered:
  "(p, c) \<in> set PROVIDER_CONFIGS \<Longrightarrow> getProviderConfig p = Inr (Config c)"
  by (simp add: getProviderConfig_def registry_get_registered)

lemma getProviderConfig_unknown:
  "p \<notin> set (map fst PROVIDER_CONFIGS) \<Longrightarrow> p \<notin> set Object_prototype_keys \<Longrightarrow>
   getProviderConfig p =
     Inl (Error (''Unknown provider '' @ dquote @ p @ dquote @
       ''. Valid providers: openai, anthropic, gemini, groq, together, mistral, openrouter, xai, deepseek''))"
  by (simp add: getProviderConfig_def registry_get_def map_of_eq_None_iff [THEN iffD2]
      PROVIDER_CONFIGS_def)

section \<open>The option resolver\<close>

text \<open>
  C1, as amended. Let \<open>llm\<close> be unset, \<open>apiKey\<close> a non-empty string and \<open>provider\<close>
  absent or one of the nine registered identifiers. The effective model is
  \<open>options.model\<close> if given, else the registry default of the provider if one is given.
  When there is no effective model or it is the empty string (an \<open>options.model\<close> of
  \<open>""\<close> included), \<open>resolveLlm\<close> fails with a message that begins with the caller's
  name and says that \<open>model\<close> is required. Otherwise it returns a function that, on
  every message list, is \<open>callLLM\<close> with the captured key, the resolved model, the
  provider and the base URL.
\<close>

theorem resolveLlm_apiKey_model_resolution:
  assumes "llm opts = JUndefined" and "apiKey opts = Some key" and "key \<noteq> []"
    and "provider opts = None \<or> (\<exists>p \<in> set (map fst PROVIDER_CONFIGS). provider opts = Some p)"
  shows "(spec_effective_model opts = None \<or> spec_effective_model opts = Some [] \<longrightarrow>
            resolveLlm w opts pkg = Inl (Error (pkg @
              '' requires `model` when using `apiKey` (or use a `provider` with a default model)'')))
         \<and> (\<forall>m. spec_effective_model opts = Some m \<and> m \<noteq> [] \<longrightarrow>
              (\<exists>caller. resolveLlm w opts pkg = Inr caller
                 \<and> (\<forall>msgs. caller msgs = callLLM w msgs key m (provider opts) (baseURL opts))))"
proof (cases "provider opts")
  case None
  with assms show ?thesis
    by (auto simp: resolveLlm_def spec_effective_model_def split: option.splits)
next
  case (Some p)
  with assms(4) obtain c where c: "(p, c) \<in> set PROVIDER_CONFIGS" by auto
  have g: "getProviderConfig p = Inr (Config c)"
    by (simp add: getProviderConfig_def registry_get_registered [OF c])
  from assms(1-3) Some g registered_nonempty [OF c] map_of_registered [OF c] show ?thesis
    by (auto simp: resolveLlm_def spec_effective_model_def split: option.splits)
qed

text \<open>
  An instance: \<open>{ apiKey: "sk-test", provider: "openai" }\<close> resolves to a function
  that calls the router with the model \<open>gpt-4o-mini\<close>.
\<close>

theorem resolveLlm_apiKey_model_resolution_witness:
  "\<exists>caller. resolveLlm echo_world
       \<lparr>apiKey = Some ''sk-test'', provider = Some ''openai'', model = None,
        baseURL = None, llm = JUndefined\<rparr> ''testpkg'' = Inr caller
     \<and> (\<forall>msgs. caller msgs =
           callLLM echo_world msgs ''sk-test'' ''gpt-4o-mini'' (Some ''openai'') None)"
proof -
  have e: "spec_effective_model
      \<lparr>apiKey = Some ''sk-test'', provider = Some ''openai'', model = None,
       baseURL = None, llm = JUndefined\<rparr> = Some ''gpt-4o-mini''"
    by (simp add: spec_effective_model_def PROVIDER_CONFIGS_def)
  have k: "provider \<lparr>apiKey = Some ''sk-test'', provider = Some ''openai'', model = None,
       baseURL = None, llm = JUndefined\<rparr> = None
      \<or> (\<exists>p \<in> set (map fst PROVIDER_CONFIGS).
            provider \<lparr>apiKey = Some ''sk-test'', provider = Some ''openai'', model = None,
              baseURL = None, llm = JUndefined\<rparr> = Some p)"
    by (simp add: provider_keys)
  from resolveLlm_apiKey_model_resolution
      [of "\<lparr>apiKey = Some ''sk-test'', provider = Some ''openai'', model = None,
            baseURL = None, llm = JUndefined\<rparr>" "''sk-test''" echo_world "''testpkg''",
       OF _ _ _ k] e
  show ?thesis by simp
qed

text \<open>
  C1 as stated fails on two inputs. With \<open>{ apiKey: "k", provider: "openai", model: "" }\<close>
  a model is given, yet the result is the model-required error and not a function. With
  \<open>{ apiKey: "", provider: "openai" }\<close> the key is set and the provider has a default
  model, yet the result is the error of the last branch.
\<close>

theorem resolveLlm_apiKey_counterexample:
  "resolveLlm echo_world
     \<lparr>apiKey = Some ''k'', provider = Some ''openai'', model = Some [],
      baseURL = None, llm = JUndefined\<rparr> ''pkg''
     = Inl (Error ''pkg requires `model` when using `apiKey` (or use a `provider` with a default model)'')
   \<and> resolveLlm echo_world
     \<lparr>apiKey = Some [], provider = Some ''openai'', model = None,
      baseURL = None, llm = JUndefined\<rparr> ''pkg''
     = Inl (Error ''pkg requires either `apiKey` + `model`, `apiKey` + `provider`, or `llm` option'')"
  by (simp add: resolveLlm_def getProviderConfig_def registry_get_def PROVIDER_CONFIGS_def)

text \<open>
  C2, as amended. When the \<open>llm\<close> option holds a truthy value that is not a function,
  \<open>resolveLlm\<close> fails with the message \<open>`llm` option must be a function\<close>, whatever
  the other options are. When it holds a falsy value (\<open>""\<close>, \<open>0\<close>, \<open>NaN\<close>, \<open>0n\<close>,
  \<open>false\<close>, \<open>null\<close>), the value counts as unset: the result is that of the same
  options with \<open>llm\<close> undefined.
\<close>

theorem resolveLlm_non_function_llm:
  "(truthy (llm opts) \<and> typeof (llm opts) \<noteq> ''function'' \<longrightarrow>
      resolveLlm w opts pkg = Inl (Error ''`llm` option must be a function''))
   \<and> (\<not> truthy (llm opts) \<longrightarrow>
      resolveLlm w opts pkg = resolveLlm w (opts\<lparr>llm := JUndefined\<rparr>) pkg)"
proof -
  have 1: "truthy (llm opts) \<and> typeof (llm opts) \<noteq> ''function'' \<longrightarrow>
      resolveLlm w opts pkg = Inl (Error ''`llm` option must be a function'')"
    by (cases "llm opts") (simp_all add: resolveLlm_def)
  have 2: "\<not> truthy (llm opts) \<longrightarrow>
      resolveLlm w opts pkg = resolveLlm w (opts\<lparr>llm := JUndefined\<rparr>) pkg"
    by (simp add: resolveLlm_def cong: option.case_cong sum.case_cong if_cong)
  from 1 2 show ?thesis by blast
qed

text \<open>
  Instances: the string \<open>not a function\<close> is rejected although a key and a provider
  are given; with \<open>llm\<close> set to \<open>null\<close> and nothing else, the error is that of the
  last branch; with \<open>llm\<close> set to \<open>0\<close>, a key and a model, the result is that of the
  options without \<open>llm\<close>.
\<close>

theorem resolveLlm_non_function_llm_witness:
  "resolveLlm echo_world
     \<lparr>apiKey = Some ''sk-test'', provider = Some ''openai'', model = None,
      baseURL = None, llm = JString ''not a function''\<rparr> ''testpkg''
     = Inl (Error ''`llm` option must be a function'')
   \<and> resolveLlm echo_world
     \<lparr>apiKey = None, provider = None, model = None, baseURL = None, llm = JNull\<rparr> ''mypkg''
     = Inl (Error ''mypkg requires either `apiKey` + `model`, `apiKey` + `provider`, or `llm` option'')
   \<and> resolveLlm echo_world
     \<lparr>apiKey = Some ''k'', provider = None, model = Some ''m'', baseURL = None,
      llm = JNumber 0\<rparr> ''pkg''
     = resolveLlm echo_world
     \<lparr>apiKey = Some ''k'', provider = None, model = Some ''m'', baseURL = None,
      llm = JUndefined\<rparr> ''pkg''"
proof -
  have a: "resolveLlm echo_world
     \<lparr>apiKey = Some ''sk-test'', provider = Some ''openai'', model = None,
      baseURL = None, llm = JString ''not a function''\<rparr> ''testpkg''
     = Inl (Error ''`llm` option must be a function'')"
    using resolveLlm_non_function_llm
      [of "\<lparr>apiKey = Some ''sk-test'', provider = Some ''openai'', model = None,
            baseURL = None, llm = JString ''not a function''\<rparr>" echo_world "''testpkg''"]
    by simp
  have b: "resolveLlm echo_world
     \<lparr>apiKey = None, provider = None, model = None, baseURL = None, llm = JNull\<rparr> ''mypkg''
     = resolveLlm echo_world
     \<lparr>apiKey = None, provider = None, model = None, baseURL = None, llm = JUndefined\<rparr> ''mypkg''"
    using resolveLlm_non_function_llm
      [of "\<lparr>apiKey = None, provider = None, model = None, baseURL = None, llm = JNull\<rparr>"
          echo_world "''mypkg''"]
    by simp
  have c: "resolveLlm echo_world
     \<lparr>apiKey = Some ''k'', provider = None, model = Some ''m'', baseURL = None,
      llm = JNumber 0\<rparr> ''pkg''
     = resolveLlm echo_world
     \<lparr>apiKey = Some ''k'', provider = None, model = Some ''m'', baseURL = None,
      llm = JUndefined\<rparr> ''pkg''"
    using resolveLlm_non_function_llm
      [of "\<lparr>apiKey = Some ''k'', provider = None, model = Some ''m'', baseURL = None,
            llm = JNumber 0\<rparr>" echo_world "''pkg''"]
    by simp
  from b have b': "resolveLlm echo_world
     \<lparr>apiKey = None, provider = None, model = None, baseURL = None, llm = JNull\<rparr> ''mypkg''
     = Inl (Error ''mypkg requires either `apiKey` + `model`, `apiKey` + `provider`, or `llm` option'')"
    by (simp add: resolveLlm_def)
  from a b' c show ?thesis by blast
qed

text \<open>
  C2 as stated fails when the value is falsy: with \<open>llm\<close> set to the empty string, which
  is not a function, and a key and a model given, \<open>resolveLlm\<close> returns a function and
  raises no error.
\<close>

theorem resolveLlm_falsy_llm_counterexample:
  "\<not> isl (resolveLlm echo_world
     \<lparr>apiKey = Some ''k'', provider = None, model = Some ''m'',
      baseURL = None, llm = JString []\<rparr> ''pkg'')"
  by (simp add: resolveLlm_def)

text \<open>
  C3. When the \<open>llm\<close> option holds a function \<open>f\<close>, \<open>resolveLlm\<close> returns \<open>f\<close>
  itself, for every caller name and whatever the other options are.
\<close>

theorem resolveLlm_llm_passthrough:
  "llm opts = JFunction f \<Longrightarrow> resolveLlm w opts pkg = Inr f"
  by (simp add: resolveLlm_def)

theorem resolveLlm_llm_passthrough_witness:
  "resolveLlm echo_world
     \<lparr>apiKey = None, provider = None, model = None, baseURL = None,
      llm = JFunction customLlm\<rparr> ''testpkg'' = Inr customLlm"
  using resolveLlm_llm_passthrough
      [of "\<lparr>apiKey = None, provider = None, model = None, baseURL = None,
            llm = JFunction customLlm\<rparr>" customLlm echo_world "''testpkg''"]
  by simp

text \<open>
  C8. When neither \<open>llm\<close> nor \<open>apiKey\<close> is set, \<open>resolveLlm\<close> fails: the message
  is the caller's name followed by \<open>requires either\<close> and the three valid shapes.
  No function is returned.
\<close>

theorem resolveLlm_no_llm_no_apiKey:
  "llm opts = JUndefined \<Longrightarrow> apiKey opts = None \<Longrightarrow>
   resolveLlm w opts pkg = Inl (Error (pkg @
     '' requires either `apiKey` + `model`, `apiKey` + `provider`, or `llm` option''))"
  by (simp add: resolveLlm_def)

theorem resolveLlm_no_llm_no_apiKey_witness:
  "resolveLlm echo_world
     \<lparr>apiKey = None, provider = None, model = None, baseURL = None, llm = JUndefined\<rparr>
     ''mypkg''
     = Inl (Error ''mypkg requires either `apiKey` + `model`, `apiKey` + `provider`, or `llm` option'')"
  using resolveLlm_no_llm_no_apiKey
      [of "\<lparr>apiKey = None, provider = None, model = None, baseURL = None, llm = JUndefined\<rparr>"
          echo_world "''mypkg''"]
  by simp

text \<open>
  C9. An \<open>apiKey\<close> that is the empty string counts as absent: with no \<open>llm\<close> set,
  \<open>resolveLlm\<close> fails with the \<open>requires either\<close> message for every caller name,
  whatever provider, model and base URL are given, and so never reaches the resolution
  of the model.
\<close>

theorem resolveLlm_empty_apiKey:
  "llm opts = JUndefined \<Longrightarrow> apiKey opts = Some [] \<Longrightarrow>
   resolveLlm w opts pkg = Inl (Error (pkg @
     '' requires either `apiKey` + `model`, `apiKey` + `provider`, or `llm` option''))"
  by (simp add: resolveLlm_def)

theorem resolveLlm_empty_apiKey_witness:
  "resolveLlm echo_world
     \<lparr>apiKey = Some [], provider = None, model = None, baseURL = None, llm = JUndefined\<rparr>
     ''mypkg''
     = Inl (Error ''mypkg requires either `apiKey` + `model`, `apiKey` + `provider`, or `llm` option'')"
  using resolveLlm_empty_apiKey
      [of "\<lparr>apiKey = Some [], provider = None, model = None, baseURL = None, llm = JUndefined\<rparr>"
          echo_world "''mypkg''"]
  by simp

text \<open>
  C10. A \<open>model\<close> that is the empty string does not fall back to the provider's
  default: for every caller name, every non-empty key and every registered provider
  whose default model is non-empty, \<open>resolveLlm\<close> fails with the model-required
  message.
\<close>

theorem resolveLlm_empty_model_no_fallback:
  "(p, c) \<in> set PROVIDER_CONFIGS \<Longrightarrow> cfg_defaultModel c \<noteq> [] \<Longrightarrow>
   llm opts = JUndefined \<Longrightarrow> apiKey opts = Some key \<Longrightarrow> key \<noteq> [] \<Longrightarrow>
   provider opts = Some p \<Longrightarrow> model opts = Some [] \<Longrightarrow>
   resolveLlm w opts pkg = Inl (Error (pkg @
     '' requires `model` when using `apiKey` (or use a `provider` with a default model)''))"
  by (simp add: resolveLlm_def getProviderConfig_def registry_get_registered registered_nonempty)

theorem resolveLlm_empty_model_no_fallback_witness:
  "resolveLlm echo_world
     \<lparr>apiKey = Some ''k'', provider = Some ''openai'', model = Some [], baseURL = None,
      llm = JUndefined\<rparr> ''pkg''
     = Inl (Error ''pkg requires `model` when using `apiKey` (or use a `provider` with a default model)'')"
proof -
  have r: "(''openai'', \<lparr>cfg_baseURL = ''https://api.openai.com/v1'',
                          cfg_defaultModel = ''gpt-4o-mini''\<rparr>) \<in> set PROVIDER_CONFIGS"
    by (simp add: PROVIDER_CONFIGS_def)
  from resolveLlm_empty_model_no_fallback
      [OF r, of "\<lparr>apiKey = Some ''k'', provider = Some ''openai'', model = Some [],
                  baseURL = None, llm = JUndefined\<rparr>" "''k''" echo_world "''pkg''"]
  show ?thesis by simp
qed

section \<open>The registry lookup\<close>

text \<open>
  C4 fails on the code. \<open>toString\<close> is not one of the nine registered identifiers, but
  \<open>"toString" in PROVIDER_CONFIGS\<close> holds through the prototype chain, so
  \<open>getProviderConfig\<close> raises no error and returns the inherited member of
  \<open>Object.prototype\<close>, which is not a provider configuration.
\<close>

theorem getProviderConfig_inherited_key:
  "''toString'' \<notin> set (map fst PROVIDER_CONFIGS)
   \<and> getProviderConfig ''toString'' = Inr (Inherited ''toString'')"
  by (simp add: getProviderConfig_def registry_get_def PROVIDER_CONFIGS_def
      Object_prototype_keys_def)

section \<open>The Anthropic request\<close>

lemma find_first:
  "\<forall>x \<in> set pre. \<not> P x \<Longrightarrow> P s \<Longrightarrow> find P (pre @ s # post) = Some s"
  by (induction pre) simp_all

lemma find_none: "\<forall>x \<in> set xs. \<not> P x \<Longrightarrow> find P xs = None"
  by (simp add: find_None_iff)

lemma copy_message: "map (\<lambda>m::message. \<lparr>role = role m, content = content m\<rparr>) xs = xs"
  by (induction xs) simp_all

text \<open>
  The request that \<open>callAnthropic\<close> hands to \<open>fetch\<close> is \<open>anthropic_request\<close> of its
  arguments: the adapter's result is decided by what \<open>fetch\<close> answers to this one
  request. A rejection is passed on, and the text of a successful answer is returned.
\<close>

lemma callAnthropic_fetch_rejected:
  "fetch w (anthropic_request msgs k m b) = Inl e \<Longrightarrow> callAnthropic w msgs k m b = Inl e"
  by (simp add: callAnthropic_def)

lemma callAnthropic_fetch_text:
  "fetch w (anthropic_request msgs k m b) = Inr res \<Longrightarrow> res_ok res \<Longrightarrow>
   res_json res = Inr (Some [\<lparr>block_type = ''text'', block_text = Some t\<rparr>]) \<Longrightarrow> t \<noteq> [] \<Longrightarrow>
   callAnthropic w msgs k m b = Inr t"
  by (simp add: callAnthropic_def)

text \<open>
  C5. For every message list, \<open>callAnthropic\<close> sends one request, and the answer of
  \<open>fetch\<close> to it decides the result. The \<open>messages\<close> of the body of this request are
  the non-system messages of the input in their order; its \<open>system\<close> field is absent
  when no message has the system role, and is the content of the first system message
  otherwise; its \<open>max_tokens\<close> is 4096, whatever the arguments.
\<close>

theorem callAnthropic_request_body:
  "(\<forall>e. fetch w (anthropic_request msgs k m b) = Inl e \<longrightarrow> callAnthropic w msgs k m b = Inl e)
   \<and> (\<forall>res t. fetch w (anthropic_request msgs k m b) = Inr res \<and> res_ok res
         \<and> res_json res = Inr (Some [\<lparr>block_type = ''text'', block_text = Some t\<rparr>]) \<and> t \<noteq> []
         \<longrightarrow> callAnthropic w msgs k m b = Inr t)
   \<and> body_messages (req_body (anthropic_request msgs k m b)) = filter (\<lambda>x. role x \<noteq> System) msgs
   \<and> ((\<forall>x \<in> set msgs. role x \<noteq> System) \<longrightarrow>
        body_system (req_body (anthropic_request msgs k m b)) = None)
   \<and> (\<forall>pre s post. msgs = pre @ s # post \<and> role s = System \<and> (\<forall>x \<in> set pre. role x \<noteq> System)
         \<longrightarrow> body_system (req_body (anthropic_request msgs k m b)) = Some (content s))
   \<and> body_max_tokens (req_body (anthropic_request msgs k m b)) = 4096"
proof -
  have 1: "body_messages (req_body (anthropic_request msgs k m b))
      = filter (\<lambda>x. role x \<noteq> System) msgs"
    by (simp add: anthropic_request_def Let_def copy_message split: option.split)
  have 2: "(\<forall>x \<in> set msgs. role x \<noteq> System) \<longrightarrow>
      body_system (req_body (anthropic_request msgs k m b)) = None"
    by (simp add: anthropic_request_def Let_def find_none)
  have 3: "\<forall>pre s post. msgs = pre @ s # post \<and> role s = System \<and> (\<forall>x \<in> set pre. role x \<noteq> System)
         \<longrightarrow> body_system (req_body (anthropic_request msgs k m b)) = Some (content s)"
    by (auto simp: anthropic_request_def Let_def find_first)
  have 4: "body_max_tokens (req_body (anthropic_request msgs k m b)) = 4096"
    by (simp add: anthropic_request_def Let_def split: option.split)
  have 5: "\<forall>e. fetch w (anthropic_request msgs k m b) = Inl e \<longrightarrow>
      callAnthropic w msgs k m b = Inl e"
    by (simp add: callAnthropic_fetch_rejected)
  have 6: "\<forall>res t. fetch w (anthropic_request msgs k m b) = Inr res \<and> res_ok res
         \<and> res_json res = Inr (Some [\<lparr>block_type = ''text'', block_text = Some t\<rparr>]) \<and> t \<noteq> []
         \<longrightarrow> callAnthropic w msgs k m b = Inr t"
    by (simp add: callAnthropic_fetch_text)
  from 1 2 3 4 5 6 show ?thesis by blast
qed

text \<open>
  An instance: a system message \<open>S\<close> followed by a user message \<open>U\<close>, on the network
  that answers with a summary of the body it received.
\<close>

theorem callAnthropic_request_body_witness:
  "callAnthropic body_echo_world
      [\<lparr>role = System, content = ''S''\<rparr>, \<lparr>role = User, content = ''U''\<rparr>] ''k'' ''m'' None
     = Inr ''S|U|4096''
   \<and> body_messages (req_body (anthropic_request
      [\<lparr>role = System, content = ''S''\<rparr>, \<lparr>role = User, content = ''U''\<rparr>] ''k'' ''m'' None))
     = [\<lparr>role = User, content = ''U''\<rparr>]
   \<and> body_system (req_body (anthropic_request
      [\<lparr>role = System, content = ''S''\<rparr>, \<lparr>role = User, content = ''U''\<rparr>] ''k'' ''m'' None))
     = Some ''S''
   \<and> body_max_tokens (req_body (anthropic_request
      [\<lparr>role = System, content = ''S''\<rparr>, \<lparr>role = User, content = ''U''\<rparr>] ''k'' ''m'' None))
     = 4096"
proof -
  note t = callAnthropic_request_body
      [where w = body_echo_world
         and msgs = "[\<lparr>role = System, content = ''S''\<rparr>, \<lparr>role = User, content = ''U''\<rparr>]"
         and k = "''k''" and m = "''m''" and b = None]
  from t have s: "body_system (req_body (anthropic_request
      [\<lparr>role = System, content = ''S''\<rparr>, \<lparr>role = User, content = ''U''\<rparr>] ''k'' ''m'' None))
     = Some (content \<lparr>role = System, content = ''S''\<rparr>)"
    by (elim conjE allE [of _ "[]"] allE [of _ "\<lparr>role = System, content = ''S''\<rparr>"]
        allE [of _ "[\<lparr>role = User, content = ''U''\<rparr>]"]) simp
  from t have ms: "body_messages (req_body (anthropic_request
      [\<lparr>role = System, content = ''S''\<rparr>, \<lparr>role = User, content = ''U''\<rparr>] ''k'' ''m'' None))
     = [\<lparr>role = User, content = ''U''\<rparr>]"
    by simp
  from t have mt: "body_max_tokens (req_body (anthropic_request
      [\<lparr>role = System, content = ''S''\<rparr>, \<lparr>role = User, content = ''U''\<rparr>] ''k'' ''m'' None))
     = 4096"
    by simp
  have f: "fetch body_echo_world (anthropic_request
      [\<lparr>role = System, content = ''S''\<rparr>, \<lparr>role = User, content = ''U''\<rparr>] ''k'' ''m'' None)
     = Inr \<lparr>res_ok = True, res_status = 200, res_text = [],
            res_json = Inr (Some [\<lparr>block_type = ''text'', block_text = Some ''S|U|4096''\<rparr>])\<rparr>"
    by (simp add: body_echo_world_def s ms mt char_of_def bit_0)
  from t f have r: "callAnthropic body_echo_world
      [\<lparr>role = System, content = ''S''\<rparr>, \<lparr>role = User, content = ''U''\<rparr>] ''k'' ''m'' None
     = Inr ''S|U|4096''"
    by (elim conjE allE [of _ "\<lparr>res_ok = True, res_status = 200, res_text = [],
            res_json = Inr (Some [\<lparr>block_type = ''text'', block_text = Some ''S|U|4096''\<rparr>])\<rparr>"]
        allE [of _ "''S|U|4096''"]) simp
  from r s ms mt show ?thesis by simp
qed

section \<open>The Anthropic request URL\<close>

lemma strip_trailing_slashes_append:
  assumes "stem = [] \<or> last stem \<noteq> CHR ''/''"
  shows "strip_trailing_slashes (stem @ replicate n CHR ''/'') = stem"
proof -
  have "dropWhile (\<lambda>c. c = CHR ''/'') (rev stem) = rev stem"
    using assms by (cases stem rule: rev_cases) auto
  then show ?thesis
    by (simp add: strip_trailing_slashes_def dropWhile_append)
qed

lemma strip_v1_suffix_lower: "strip_v1_suffix (stem @ ''/v1'') = stem"
  by (simp add: strip_v1_suffix_def)

lemma strip_v1_suffix_upper: "strip_v1_suffix (stem @ ''/V1'') = stem"
  by (simp add: strip_v1_suffix_def)

lemma drop_v1_rev_none:
  assumes "\<not> suffix ''/v1'' stem" "\<not> suffix ''/V1'' stem"
  shows "drop_v1_rev (rev stem) = rev stem"
proof (cases "rev stem" rule: drop_v1_rev.cases)
  case (1 c1 cv cs rest)
  then have "stem = rev rest @ [cs, cv, c1]"
    by (metis rev_rev_ident rev.simps(2) append.simps append_assoc)
  with assms have "\<not> (c1 = CHR ''1'' \<and> (cv = CHR ''v'' \<or> cv = CHR ''V'') \<and> cs = CHR ''/'')"
    by (auto simp: suffix_def)
  with 1 show ?thesis by simp
qed simp_all

lemma strip_v1_suffix_none:
  "\<not> suffix ''/v1'' stem \<Longrightarrow> \<not> suffix ''/V1'' stem \<Longrightarrow> strip_v1_suffix stem = stem"
  by (simp add: strip_v1_suffix_def drop_v1_rev_none)

text \<open>
  C6. The URL of the request that \<open>callAnthropic\<close> sends is \<open>anthropic_url\<close> of the
  base URL. With no base URL it is \<open>https://api.anthropic.com/v1/messages\<close>, from the
  registry's entry. From a supplied base URL the slashes at its end are removed, then
  one suffix \<open>/v1\<close> or \<open>/V1\<close>, and \<open>/v1/messages\<close> is appended: a base URL \<open>stem\<close>
  followed by \<open>/v1\<close> in either case and any number of slashes gives
  \<open>stem/v1/messages\<close>, and so does \<open>stem\<close> followed by any number of slashes, when
  \<open>stem\<close> itself ends neither in a slash nor in that suffix. Both
  \<open>https://x.example.com/v1\<close> and \<open>https://x.example.com/v1/\<close> give
  \<open>https://x.example.com/v1/messages\<close>.
\<close>

theorem callAnthropic_request_url:
  "(\<forall>e. fetch w (anthropic_request msgs k m b) = Inl e \<longrightarrow> callAnthropic w msgs k m b = Inl e)
   \<and> (\<forall>res t. fetch w (anthropic_request msgs k m b) = Inr res \<and> res_ok res
         \<and> res_json res = Inr (Some [\<lparr>block_type = ''text'', block_text = Some t\<rparr>]) \<and> t \<noteq> []
         \<longrightarrow> callAnthropic w msgs k m b = Inr t)
   \<and> req_url (anthropic_request msgs k m b) = anthropic_url b
   \<and> anthropic_url None = ''https://api.anthropic.com/v1/messages''
   \<and> anthropic_url (Some ''https://x.example.com/v1'') = ''https://x.example.com/v1/messages''
   \<and> anthropic_url (Some ''https://x.example.com/v1/'') = ''https://x.example.com/v1/messages''
   \<and> anthropic_url (Some (stem @ ''/v1'' @ replicate n CHR ''/'')) = stem @ ''/v1/messages''
   \<and> anthropic_url (Some (stem @ ''/V1'' @ replicate n CHR ''/'')) = stem @ ''/v1/messages''
   \<and> ((stem = [] \<or> last stem \<noteq> CHR ''/'') \<and> \<not> suffix ''/v1'' stem \<and> \<not> suffix ''/V1'' stem
        \<longrightarrow> anthropic_url (Some (stem @ replicate n CHR ''/'')) = stem @ ''/v1/messages'')"
proof -
  have a: "strip_trailing_slashes ((stem @ ''/v1'') @ replicate n CHR ''/'') = stem @ ''/v1''"
    by (rule strip_trailing_slashes_append) simp
  have b: "strip_trailing_slashes ((stem @ ''/V1'') @ replicate n CHR ''/'') = stem @ ''/V1''"
    by (rule strip_trailing_slashes_append) simp
  have 1: "anthropic_url None = ''https://api.anthropic.com/v1/messages''"
    by (simp add: anthropic_url_def anthropic_baseURL_value strip_trailing_slashes_def
        strip_v1_suffix_def)
  have 2: "anthropic_url (Some ''https://x.example.com/v1'') = ''https://x.example.com/v1/messages''"
    by (simp add: anthropic_url_def strip_trailing_slashes_def strip_v1_suffix_def)
  have 3: "anthropic_url (Some ''https://x.example.com/v1/'') = ''https://x.example.com/v1/messages''"
    by (simp add: anthropic_url_def strip_trailing_slashes_def strip_v1_suffix_def)
  have 4: "anthropic_url (Some (stem @ ''/v1'' @ replicate n CHR ''/'')) = stem @ ''/v1/messages''"
    using a strip_v1_suffix_lower [of stem] by (simp add: anthropic_url_def)
  have 5: "anthropic_url (Some (stem @ ''/V1'' @ replicate n CHR ''/'')) = stem @ ''/v1/messages''"
    using b strip_v1_suffix_upper [of stem] by (simp add: anthropic_url_def)
  have 6: "(stem = [] \<or> last stem \<noteq> CHR ''/'') \<and> \<not> suffix ''/v1'' stem \<and> \<not> suffix ''/V1'' stem
        \<longrightarrow> anthropic_url (Some (stem @ replicate n CHR ''/'')) = stem @ ''/v1/messages''"
    by (simp add: anthropic_url_def strip_trailing_slashes_append strip_v1_suffix_none)
  have 7: "req_url (anthropic_request msgs k m b) = anthropic_url b"
    by (simp add: anthropic_request_def Let_def)
  have 8: "\<forall>e. fetch w (anthropic_request msgs k m b) = Inl e \<longrightarrow>
      callAnthropic w msgs k m b = Inl e"
    by (simp add: callAnthropic_fetch_rejected)
  have 9: "\<forall>res t. fetch w (anthropic_request msgs k m b) = Inr res \<and> res_ok res
         \<and> res_json res = Inr (Some [\<lparr>block_type = ''text'', block_text = Some t\<rparr>]) \<and> t \<noteq> []
         \<longrightarrow> callAnthropic w msgs k m b = Inr t"
    by (simp add: callAnthropic_fetch_text)
  from 1 2 3 4 5 6 7 8 9 show ?thesis by blast
qed

text \<open>
  Instances on the network that answers with the address of the request: the adapter
  reaches \<open>https://x.example.com/v1/messages\<close> from the base URLs
  \<open>https://x.example.com//\<close> and \<open>https://x.example.com/V1///\<close>, and the public
  endpoint when no base URL is given.
\<close>

theorem callAnthropic_request_url_witness:
  "callAnthropic echo_world [] ''k'' ''m'' (Some ''https://x.example.com//'')
     = Inr ''https://x.example.com/v1/messages''
   \<and> callAnthropic echo_world [] ''k'' ''m'' (Some ''https://x.example.com/V1///'')
     = Inr ''https://x.example.com/v1/messages''
   \<and> callAnthropic echo_world [] ''k'' ''m'' None
     = Inr ''https://api.anthropic.com/v1/messages''"
proof -
  have reach: "callAnthropic echo_world [] ''k'' ''m'' b = Inr u"
    if t: "(\<forall>res t. fetch echo_world (anthropic_request [] ''k'' ''m'' b) = Inr res \<and> res_ok res
         \<and> res_json res = Inr (Some [\<lparr>block_type = ''text'', block_text = Some t\<rparr>]) \<and> t \<noteq> []
         \<longrightarrow> callAnthropic echo_world [] ''k'' ''m'' b = Inr t)"
      and u: "req_url (anthropic_request [] ''k'' ''m'' b) = u" "u \<noteq> []" for b u
  proof -
    have "fetch echo_world (anthropic_request [] ''k'' ''m'' b)
        = Inr \<lparr>res_ok = True, res_status = 200, res_text = [],
               res_json = Inr (Some [\<lparr>block_type = ''text'', block_text = Some u\<rparr>])\<rparr>"
      by (simp add: echo_world_def u)
    with t u show ?thesis
      by (elim allE [of _ "\<lparr>res_ok = True, res_status = 200, res_text = [],
               res_json = Inr (Some [\<lparr>block_type = ''text'', block_text = Some u\<rparr>])\<rparr>"]
          allE [of _ u]) simp
  qed
  note t1 = callAnthropic_request_url
      [where w = echo_world and msgs = "[]" and k = "''k''" and m = "''m''"
         and b = "Some ''https://x.example.com//''" and stem = "''https://x.example.com''"
         and n = 2]
  note t2 = callAnthropic_request_url
      [where w = echo_world and msgs = "[]" and k = "''k''" and m = "''m''"
         and b = "Some ''https://x.example.com/V1///''" and stem = "''https://x.example.com''"
         and n = 3]
  note t3 = callAnthropic_request_url
      [where w = echo_world and msgs = "[]" and k = "''k''" and m = "''m''"
         and b = None and stem = "[]" and n = 0]
  have u1: "req_url (anthropic_request [] ''k'' ''m'' (Some ''https://x.example.com//''))
      = ''https://x.example.com/v1/messages''"
    using t1 by (simp add: suffix_to_prefix eval_nat_numeral)
  have u2: "req_url (anthropic_request [] ''k'' ''m'' (Some ''https://x.example.com/V1///''))
      = ''https://x.example.com/v1/messages''"
    using t2 by (simp add: eval_nat_numeral)
  have u3: "req_url (anthropic_request [] ''k'' ''m'' None)
      = ''https://api.anthropic.com/v1/messages''"
    using t3 by simp
  have r1: "callAnthropic echo_world [] ''k'' ''m'' (Some ''https://x.example.com//'')
     = Inr ''https://x.example.com/v1/messages''"
    by (rule reach [OF _ u1]) (use t1 in blast, simp)
  have r2: "callAnthropic echo_world [] ''k'' ''m'' (Some ''https://x.example.com/V1///'')
     = Inr ''https://x.example.com/v1/messages''"
    by (rule reach [OF _ u2]) (use t2 in blast, simp)
  have r3: "callAnthropic echo_world [] ''k'' ''m'' None
     = Inr ''https://api.anthropic.com/v1/messages''"
    by (rule reach [OF _ u3]) (use t3 in blast, simp)
  from r1 r2 r3 show ?thesis by blast
qed

section \<open>The router\<close>

text \<open>
  C7. With the provider \<open>anthropic\<close>, \<open>callLLM\<close> is \<open>callAnthropic\<close> on the same
  arguments, the base URL as given. With any other provider or none, it is
  \<open>callOpenAICompatible\<close> with the base URL that was given when there is one; with no
  base URL, it is \<open>callOpenAICompatible\<close> with the registry's base URL of the provider
  when a registered provider is given, and with none when no provider is given.
\<close>

theorem callLLM_routing:
  "callLLM w msgs k m (Some ''anthropic'') b = callAnthropic w msgs k m b
   \<and> (p \<noteq> Some ''anthropic'' \<longrightarrow>
        callLLM w msgs k m p (Some u) = callOpenAICompatible w msgs k m (Some u))
   \<and> callLLM w msgs k m None None = callOpenAICompatible w msgs k m None
   \<and> (\<forall>name c. (name, c) \<in> set PROVIDER_CONFIGS \<and> name \<noteq> ''anthropic'' \<longrightarrow>
        callLLM w msgs k m (Some name) None
          = callOpenAICompatible w msgs k m (Some (cfg_baseURL c)))"
proof -
  have 1: "callLLM w msgs k m (Some ''anthropic'') b = callAnthropic w msgs k m b"
    by (simp add: callLLM_def)
  have 2: "p \<noteq> Some ''anthropic'' \<longrightarrow>
        callLLM w msgs k m p (Some u) = callOpenAICompatible w msgs k m (Some u)"
    by (simp add: callLLM_def)
  have 3: "callLLM w msgs k m None None = callOpenAICompatible w msgs k m None"
    by (simp add: callLLM_def)
  have 4: "callLLM w msgs k m (Some name) None
      = callOpenAICompatible w msgs k m (Some (cfg_baseURL c))"
    if "(name, c) \<in> set PROVIDER_CONFIGS" "name \<noteq> ''anthropic''" for name c
    using that registered_nonempty [OF that(1)] registry_get_registered [OF that(1)]
    by (simp add: callLLM_def)
  from 1 2 3 4 show ?thesis by blast
qed

text \<open>
  Instances on the network that answers with the address: the provider \<open>groq\<close> is
  reached at its registry base URL, or at the base URL given; the provider
  \<open>anthropic\<close> is reached at the normalized URL of the Anthropic adapter.
\<close>

theorem callLLM_routing_witness:
  "callLLM echo_world [] ''k'' ''m'' (Some ''groq'') None = Inr ''https://api.groq.com/openai/v1''
   \<and> callLLM echo_world [] ''k'' ''m'' (Some ''groq'') (Some ''http://localhost:1234/v1'')
       = Inr ''http://localhost:1234/v1''
   \<and> callLLM echo_world [] ''k'' ''m'' (Some ''anthropic'') (Some ''https://x.example.com/v1/'')
       = Inr ''https://x.example.com/v1/messages''"
proof -
  have g: "(''groq'', \<lparr>cfg_baseURL = ''https://api.groq.com/openai/v1'',
                       cfg_defaultModel = ''llama-3.3-70b-versatile''\<rparr>) \<in> set PROVIDER_CONFIGS"
    by (simp add: PROVIDER_CONFIGS_def)
  note t = callLLM_routing [of echo_world "[]" "''k''" "''m''" "Some ''https://x.example.com/v1/''"
      "Some ''groq''" "''http://localhost:1234/v1''"]
  from t g have "callLLM echo_world [] ''k'' ''m'' (Some ''groq'') None
      = callOpenAICompatible echo_world [] ''k'' ''m'' (Some ''https://api.groq.com/openai/v1'')"
    by fastforce
  with t show ?thesis
    by (simp add: callOpenAICompatible_def callAnthropic_def anthropic_request_def
        anthropic_url_def strip_trailing_slashes_def strip_v1_suffix_def echo_world_def)
qed

end
